theory Spec2Isabelle
  imports Main
begin

section \<open>The Polyjuice counterfactual generator\<close>

text \<open>
  A shallow embedding of \<^verbatim>\<open>src/PolyjuiceGenerator/PolyjuiceGenerator.py\<close>.
  The script reads one column of a csv file, asks the Polyjuice model for one perturbation
  of every sentence and writes the collected sentences to a csv file.

  Everything the script does beyond computing values is explicit here: what it prints,
  the files it reads and writes, the calls it makes to the model and every exception it
  can raise.  A method of the class takes the object and the world and returns the
  exception it raised (if any) together with the object and the world as they are when it
  stops, because an object mutated in place keeps its changes when a later statement raises.
\<close>

subsection \<open>Exceptions\<close>

text \<open>
  \<^verbatim>\<open>exit(1)\<close> raises \<^verbatim>\<open>SystemExit(1)\<close>; an uncaught one ends the
  process with that status.  \<open>ParserError\<close> stands for whatever \<^verbatim>\<open>pandas.read_csv\<close>
  raises on a path that exists and does not hold a table, \<open>OSError\<close> for a failed write.
\<close>

datatype py_error =
    SystemExit int
  | AttributeError
  | TypeError
  | ValueError
  | KeyError string
  | ParserError
  | OSError
  | RuntimeError string

subsection \<open>The world outside the object\<close>

text \<open>
  A table is the list of its columns, in order, each with its header and its cells; the
  cells are strings, as the sentences the script works on are.  A file is seen through
  pandas: it holds a table or it cannot be parsed.  The world holds
  the lines printed so far (one entry for each call of \<^verbatim>\<open>print\<close>), the file system,
  which paths can be written, what \<^verbatim>\<open>torch.cuda.is_available()\<close> answers, and the
  state of the external model (a sampling model need not answer the same sentence the
  same way twice).  The progress bar of \<^verbatim>\<open>tqdm\<close> goes to the error stream and is
  left out.
\<close>

type_synonym table = "(string \<times> string list) list"

datatype file_content = Csv table | Unparsable

record 'm world =
  stdout :: "string list"
  fs :: "string \<rightharpoonup> file_content"
  writable :: "string \<Rightarrow> bool"
  cuda_available :: bool
  model_state :: 'm

definition py_print :: "string \<Rightarrow> 'm world \<Rightarrow> 'm world" where
  "py_print line w = w\<lparr>stdout := stdout w @ [line]\<rparr>"

definition path_exists :: "'m world \<Rightarrow> string \<Rightarrow> bool" where
  "path_exists w p = (fs w p \<noteq> None)"

subsection \<open>The pandas operations the script calls\<close>

definition read_csv :: "'m world \<Rightarrow> string \<Rightarrow> py_error + table" where
  "read_csv w p =
     (case fs w p of
        None \<Rightarrow> Inl OSError
      | Some Unparsable \<Rightarrow> Inl ParserError
      | Some (Csv t) \<Rightarrow> Inr t)"

text \<open>\<^verbatim>\<open>df[col]\<close> followed by \<^verbatim>\<open>.tolist()\<close>: the cells of the named column, or a KeyError.\<close>

definition getitem :: "table \<Rightarrow> string \<Rightarrow> py_error + string list" where
  "getitem t c = (case map_of t c of None \<Rightarrow> Inl (KeyError c) | Some cells \<Rightarrow> Inr cells)"

text \<open>
  \<^verbatim>\<open>pd.DataFrame({key: value})\<close> for a dictionary of one entry.  A list gives a frame
  of one column; \<^verbatim>\<open>None\<close> is a scalar, and a frame of scalars only, without an
  index, is refused with a ValueError.
\<close>

definition DataFrame :: "string \<Rightarrow> string list option \<Rightarrow> py_error + table" where
  "DataFrame key val = (case val of None \<Rightarrow> Inl ValueError | Some cells \<Rightarrow> Inr [(key, cells)])"

fun show_nat :: "nat \<Rightarrow> string" where
  "show_nat n =
     (if n < 10 then [char_of (48 + n)]
      else show_nat (n div 10) @ [char_of (48 + n mod 10)])"

definition nrows :: "table \<Rightarrow> nat" where
  "nrows t = (case t of [] \<Rightarrow> 0 | (_, cells) # _ \<Rightarrow> length cells)"

text \<open>
  \<^verbatim>\<open>df.to_csv(path, index=...)\<close> replaces the file at the path.  With the index it
  writes the row numbers as a first column with an empty header; without, the columns of
  the frame and nothing else.
\<close>

definition to_csv :: "table \<Rightarrow> string \<Rightarrow> bool \<Rightarrow> 'm world \<Rightarrow> py_error option \<times> 'm world" where
  "to_csv t p index w =
     (if \<not> writable w p then (Some OSError, w)
      else (None,
            w\<lparr>fs := (fs w)(p \<mapsto>
                 Csv (if index then ([], map show_nat [0..<nrows t]) # t else t))\<rparr>))"

subsection \<open>The external model\<close>

text \<open>
  \<^verbatim>\<open>Polyjuice(model_path=..., is_cuda=...)\<close> keeps its two arguments.  What
  \<^verbatim>\<open>perturb(s, num_perturbations=n)\<close> answers is not in this repository: it is a
  parameter, a function of the handle, the sentence, the number of perturbations asked for
  and the model's state, which returns candidates or raises, and the new state.
\<close>

record polyjuice =
  model_path :: string
  is_cuda :: bool

type_synonym 'm perturb =
  "polyjuice \<Rightarrow> string \<Rightarrow> nat \<Rightarrow> 'm \<Rightarrow> (py_error + string list) \<times> 'm"

subsection \<open>class PolyjuiceGenerator\<close>

text \<open>\<^verbatim>\<open>counter_sentences\<close> holds \<^verbatim>\<open>None\<close> or a list.\<close>

record generator =
  sentences :: "string list"
  cuda :: bool
  model :: polyjuice
  dest_csv :: string
  counter_sentences :: "string list option"

text \<open>\<^verbatim>\<open>__init__\<close>: the three checks in the order of the source, then the loading.\<close>

definition PolyjuiceGenerator_init ::
  "string option \<Rightarrow> string option \<Rightarrow> string option \<Rightarrow> bool option \<Rightarrow> 'm world
     \<Rightarrow> (py_error + generator) \<times> 'm world" where
  "PolyjuiceGenerator_init source_csv source_col dest cuda_arg w =
     (case source_csv of
        None \<Rightarrow> (Inl (SystemExit 1), py_print ''[ERROR]: source_csv must be specified'' w)
      | Some p \<Rightarrow>
          if \<not> path_exists w p then
            (Inl (SystemExit 1), py_print (''[ERROR]: file '' @ p @ '' does not exist'') w)
          else
            (case source_col of
               None \<Rightarrow> (Inl (SystemExit 1), py_print ''[ERROR]: source_col must be specified'' w)
             | Some c \<Rightarrow>
                 (case read_csv w p of
                    Inl e \<Rightarrow> (Inl e, w)
                  | Inr t \<Rightarrow>
                      (case getitem t c of
                         Inl e \<Rightarrow> (Inl e, w)
                       | Inr cells \<Rightarrow>
                           (let dev = (case cuda_arg of None \<Rightarrow> cuda_available w | Some b \<Rightarrow> b)
                            in (Inr \<lparr>sentences = cells,
                                     cuda = dev,
                                     model = \<lparr>model_path = ''uw-hai/polyjuice'', is_cuda = dev\<rparr>,
                                     dest_csv = (case dest of None \<Rightarrow> ''polyjuice_edits.csv''
                                                 | Some d \<Rightarrow> d),
                                     counter_sentences = None\<rparr>, w))))))"

text \<open>
  The loop of \<^verbatim>\<open>generate_counterfactuals\<close>, over the sentences still to visit.  Each
  round calls the model with \<^verbatim>\<open>num_perturbations=1\<close>, then looks up
  \<^verbatim>\<open>append\<close> on \<^verbatim>\<open>self.counter_sentences\<close>, which raises AttributeError on
  \<^verbatim>\<open>None\<close>, and appends \<^verbatim>\<open>perturbations[0] if perturbations else s\<close>.
\<close>

fun generate_loop ::
  "'m perturb \<Rightarrow> string list \<Rightarrow> generator \<Rightarrow> 'm world \<Rightarrow> py_error option \<times> generator \<times> 'm world" where
  "generate_loop P [] g w = (None, g, w)"
| "generate_loop P (s # rest) g w =
     (case P (model g) s 1 (model_state w) of
        (Inl e, m) \<Rightarrow> (Some e, g, w\<lparr>model_state := m\<rparr>)
      | (Inr perturbations, m) \<Rightarrow>
          (case counter_sentences g of
             None \<Rightarrow> (Some AttributeError, g, w\<lparr>model_state := m\<rparr>)
           | Some cs \<Rightarrow>
               generate_loop P rest
                 (g\<lparr>counter_sentences :=
                      Some (cs @ [case perturbations of [] \<Rightarrow> s | c # _ \<Rightarrow> c])\<rparr>)
                 (w\<lparr>model_state := m\<rparr>)))"

definition generate_counterfactuals ::
  "'m perturb \<Rightarrow> generator \<Rightarrow> 'm world \<Rightarrow> py_error option \<times> generator \<times> 'm world" where
  "generate_counterfactuals P g w =
     generate_loop P (sentences g) g (py_print ''[INFO]: Generating Counterfactuals...'' w)"

definition export_to_csv ::
  "generator \<Rightarrow> 'm world \<Rightarrow> py_error option \<times> generator \<times> 'm world" where
  "export_to_csv g w =
     (let w1 = py_print (''[INFO]: Exporting counterfactuals to '' @ dest_csv g @ ''...'') w
      in case DataFrame ''counter_sents'' (counter_sentences g) of
           Inl e \<Rightarrow> (Some e, g, w1)
         | Inr counter_df \<Rightarrow>
             (case to_csv counter_df (dest_csv g) False w1 of (r, w2) \<Rightarrow> (r, g, w2)))"

text \<open>The two \<^verbatim>\<open>print\<close> calls of the debug loop for one pair.\<close>

definition print_pair :: "'m world \<Rightarrow> string \<times> string \<Rightarrow> 'm world" where
  "print_pair w s =
     py_print (replicate 100 CHR ''='')
       (py_print (''Original: '' @ fst s @ [CHR 0x0A, CHR 0x0A] @ ''Counter: '' @ snd s @ [CHR 0x0A]) w)"

text \<open>
  \<^verbatim>\<open>pipeline\<close>.  In debug mode \<^verbatim>\<open>zip(self.sentences, self.counter_sentences)\<close>
  raises TypeError when the second argument is \<^verbatim>\<open>None\<close>.
\<close>

definition pipeline ::
  "'m perturb \<Rightarrow> bool \<Rightarrow> generator \<Rightarrow> 'm world \<Rightarrow> py_error option \<times> generator \<times> 'm world" where
  "pipeline P debug g w =
     (if debug then
        (case generate_counterfactuals P g w of
           (Some e, g1, w1) \<Rightarrow> (Some e, g1, w1)
         | (None, g1, w1) \<Rightarrow>
             (case counter_sentences g1 of
                None \<Rightarrow> (Some TypeError, g1, w1)
              | Some cs \<Rightarrow> (None, g1, foldl print_pair w1 (zip (sentences g1) cs))))
      else
        (case generate_counterfactuals P g w of
           (Some e, g1, w1) \<Rightarrow> (Some e, g1, w1)
         | (None, g1, w1) \<Rightarrow> export_to_csv g1 w1))"

subsection \<open>The command line\<close>

text \<open>
  The four options \<^verbatim>\<open>parse_input\<close> declares.  Matching the words of the command line
  against option strings is argparse's work; an invocation is given here as the
  occurrences of options it holds, in order.  The three \<^verbatim>\<open>store\<close> options keep the
  last value and default to \<^verbatim>\<open>None\<close>; \<^verbatim>\<open>--cuda\<close> is \<^verbatim>\<open>store_true\<close>, which
  defaults to \<^verbatim>\<open>False\<close>.  A required option that is missing makes argparse end the
  process with status 2.
\<close>

datatype cli_arg = SourceCsv string | SourceCol string | DestCsv string | CudaFlag

record namespace =
  arg_source_csv :: "string option"
  arg_source_col :: "string option"
  arg_dest_csv :: "string option"
  arg_cuda :: bool

fun parse_args :: "cli_arg list \<Rightarrow> namespace \<Rightarrow> namespace" where
  "parse_args [] ns = ns"
| "parse_args (SourceCsv v # rest) ns = parse_args rest (ns\<lparr>arg_source_csv := Some v\<rparr>)"
| "parse_args (SourceCol v # rest) ns = parse_args rest (ns\<lparr>arg_source_col := Some v\<rparr>)"
| "parse_args (DestCsv v # rest) ns = parse_args rest (ns\<lparr>arg_dest_csv := Some v\<rparr>)"
| "parse_args (CudaFlag # rest) ns = parse_args rest (ns\<lparr>arg_cuda := True\<rparr>)"

definition parse_input :: "cli_arg list \<Rightarrow> py_error + namespace" where
  "parse_input argv =
     (let ns = parse_args argv
                 \<lparr>arg_source_csv = None, arg_source_col = None, arg_dest_csv = None,
                  arg_cuda = False\<rparr>
      in if arg_source_csv ns = None \<or> arg_source_col ns = None then Inl (SystemExit 2)
         else Inr ns)"

text \<open>
  \<^verbatim>\<open>main\<close>.  The elapsed time it prints at the end is a parameter.  The generator
  it built is returned with the outcome, so that the run can be inspected.
\<close>

definition main ::
  "'m perturb \<Rightarrow> string \<Rightarrow> namespace \<Rightarrow> 'm world \<Rightarrow> py_error option \<times> generator option \<times> 'm world" where
  "main P elapsed args w =
     (case PolyjuiceGenerator_init (arg_source_csv args) (arg_source_col args)
             (arg_dest_csv args) (Some (arg_cuda args)) w of
        (Inl e, w1) \<Rightarrow> (Some e, None, w1)
      | (Inr poly_generator, w1) \<Rightarrow>
          (case pipeline P False poly_generator w1 of
             (Some e, g2, w2) \<Rightarrow> (Some e, Some g2, w2)
           | (None, g2, w2) \<Rightarrow>
               (None, Some g2,
                py_print ([CHR 0x0A, CHR 0x0A] @ ''Script execution time: '' @ elapsed) w2)))"

text \<open>The script itself: \<^verbatim>\<open>ARG = parse_input(); main(ARG)\<close>.\<close>

definition script ::
  "'m perturb \<Rightarrow> string \<Rightarrow> cli_arg list \<Rightarrow> 'm world \<Rightarrow> py_error option \<times> generator option \<times> 'm world" where
  "script P elapsed argv w =
     (case parse_input argv of
        Inl e \<Rightarrow> (Some e, None, w)
      | Inr args \<Rightarrow> main P elapsed args w)"

subsection \<open>A concrete run\<close>

text \<open>
  A source table with a column \<open>text\<close> of two sentences, and a stand-in for the model that
  answers one candidate for the first sentence and none for any other.  Its state is the
  list of the calls it has received.
\<close>

definition example_table :: table where
  "example_table = [(''text'', [''The movie was great'', ''I hate rain''])]"

definition example_world :: "(string \<times> nat) list world" where
  "example_world =
     \<lparr>stdout = [], fs = [''in.csv'' \<mapsto> Csv example_table], writable = (\<lambda>p. True),
      cuda_available = True, model_state = []\<rparr>"

definition stub_perturb :: "(string \<times> nat) list perturb" where
  "stub_perturb mdl s n calls =
     (Inr (if s = ''The movie was great'' then [''The movie was terrible''] else []),
      calls @ [(s, n)])"

definition example_generator :: generator where
  "example_generator =
     \<lparr>sentences = [''The movie was great'', ''I hate rain''],
      cuda = True,
      model = \<lparr>model_path = ''uw-hai/polyjuice'', is_cuda = True\<rparr>,
      dest_csv = ''polyjuice_edits.csv'',
      counter_sentences = None\<rparr>"

section \<open>Properties\<close>

subsection \<open>What the generation loop leaves alone\<close>

text \<open>
  The loop rebinds no attribute of the object; its only change is the in-place append to
  the list held by \<^verbatim>\<open>counter_sentences\<close>.  In the world it only moves the model's
  state.  (As after construction, the attributes hold distinct objects.)
\<close>

lemma generate_loop_object:
  "generate_loop P ss g w = (r, g', w') \<Longrightarrow>
     sentences g' = sentences g \<and> cuda g' = cuda g \<and> model g' = model g \<and>
     dest_csv g' = dest_csv g"
proof (induction ss arbitrary: g w)
  case Nil
  then show ?case by simp
next
  case (Cons s rest)
  show ?case
  proof (cases "P (model g) s 1 (model_state w)")
    case (Pair a m)
    show ?thesis
    proof (cases a)
      case (Inl e)
      with Pair Cons.prems show ?thesis by simp
    next
      case (Inr perturbations)
      show ?thesis
      proof (cases "counter_sentences g")
        case None
        with Pair Inr Cons.prems show ?thesis by simp
      next
        case (Some cs)
        with Pair Inr Cons.prems Cons.IH show ?thesis by fastforce
      qed
    qed
  qed
qed

lemma generate_loop_world:
  "generate_loop P ss g w = (r, g', w') \<Longrightarrow>
     stdout w' = stdout w \<and> fs w' = fs w \<and> writable w' = writable w \<and>
     cuda_available w' = cuda_available w"
proof (induction ss arbitrary: g w)
  case Nil
  then show ?case by simp
next
  case (Cons s rest)
  show ?case
  proof (cases "P (model g) s 1 (model_state w)")
    case (Pair a m)
    show ?thesis
    proof (cases a)
      case (Inl e)
      with Pair Cons.prems show ?thesis by auto
    next
      case (Inr perturbations)
      show ?thesis
      proof (cases "counter_sentences g")
        case None
        with Pair Inr Cons.prems show ?thesis by auto
      next
        case (Some cs)
        with Pair Inr Cons.prems Cons.IH show ?thesis by fastforce
      qed
    qed
  qed
qed

lemma generate_loop_unbound:
  "counter_sentences g = None \<Longrightarrow>
   generate_loop P (s # rest) g w =
     (Some (case fst (P (model g) s 1 (model_state w)) of Inl e \<Rightarrow> e | Inr _ \<Rightarrow> AttributeError),
      g, w\<lparr>model_state := snd (P (model g) s 1 (model_state w))\<rparr>)"
  by (cases "P (model g) s 1 (model_state w)") (auto split: sum.splits)

lemma init_unbound:
  "PolyjuiceGenerator_init source_csv source_col dest cuda_arg w0 = (Inr g, w1) \<Longrightarrow>
     counter_sentences g = None"
  by (auto simp: PolyjuiceGenerator_init_def Let_def split: option.splits if_splits sum.splits)

subsection \<open>The first generation after construction\<close>

text \<open>
  C3.  A generator that the constructor has built holds \<^verbatim>\<open>None\<close> in
  \<^verbatim>\<open>counter_sentences\<close>.  When its sentence list is not empty, the call of
  \<^verbatim>\<open>generate_counterfactuals\<close> raises in the first round of the loop: the model is
  asked about the first sentence and, unless that call itself raises, the lookup of
  \<^verbatim>\<open>append\<close> on \<^verbatim>\<open>None\<close> raises AttributeError.  Nothing has been appended.
\<close>

theorem first_generate_fails:
  assumes "PolyjuiceGenerator_init source_csv source_col dest cuda_arg w0 = (Inr g, w1)"
    and "sentences g = s # rest"
  shows "counter_sentences g = None \<and>
         generate_counterfactuals P g w =
           (Some (case fst (P (model g) s 1 (model_state w)) of
                    Inl e \<Rightarrow> e | Inr _ \<Rightarrow> AttributeError),
            g,
            w\<lparr>stdout := stdout w @ [''[INFO]: Generating Counterfactuals...''],
              model_state := snd (P (model g) s 1 (model_state w))\<rparr>)"
proof -
  have u: "counter_sentences g = None"
    using assms(1) by (rule init_unbound)
  show ?thesis
    using u assms(2)
    by (simp add: generate_counterfactuals_def generate_loop_unbound py_print_def
          del: generate_loop.simps)
qed

theorem first_generate_fails_witness:
  "PolyjuiceGenerator_init (Some ''in.csv'') (Some ''text'') None None example_world
     = (Inr example_generator, example_world) \<and>
   sentences example_generator = ''The movie was great'' # [''I hate rain''] \<and>
   counter_sentences example_generator = None \<and>
   generate_counterfactuals stub_perturb example_generator example_world =
     (Some AttributeError, example_generator,
      example_world\<lparr>stdout := [''[INFO]: Generating Counterfactuals...''],
                    model_state := [(''The movie was great'', 1)]\<rparr>)"
proof -
  have built: "PolyjuiceGenerator_init (Some ''in.csv'') (Some ''text'') None None example_world
                 = (Inr example_generator, example_world)"
    by (simp add: PolyjuiceGenerator_init_def path_exists_def read_csv_def getitem_def
          example_world_def example_table_def example_generator_def)
  have nonempty: "sentences example_generator = ''The movie was great'' # [''I hate rain'']"
    by (simp add: example_generator_def)
  show ?thesis
    using built nonempty
      first_generate_fails [OF built nonempty, of stub_perturb example_world]
    by (simp add: stub_perturb_def example_world_def)
qed

subsection \<open>What the methods leave alone\<close>

lemma generate_counterfactuals_object:
  "generate_counterfactuals P g w = (r, g', w') \<Longrightarrow>
     sentences g' = sentences g \<and> cuda g' = cuda g \<and> model g' = model g \<and>
     dest_csv g' = dest_csv g"
  unfolding generate_counterfactuals_def by (rule generate_loop_object)

lemma export_to_csv_object: "fst (snd (export_to_csv g w)) = g"
  by (simp add: export_to_csv_def Let_def split: sum.splits prod.splits)

lemma pipeline_object:
  "pipeline P debug g w = (r, g', w') \<Longrightarrow>
     sentences g' = sentences g \<and> cuda g' = cuda g \<and> model g' = model g \<and>
     dest_csv g' = dest_csv g"
proof -
  assume run: "pipeline P debug g w = (r, g', w')"
  obtain r1 g1 w1 where gen: "generate_counterfactuals P g w = (r1, g1, w1)"
    by (cases "generate_counterfactuals P g w") auto
  have same: "sentences g1 = sentences g \<and> cuda g1 = cuda g \<and> model g1 = model g \<and>
     dest_csv g1 = dest_csv g"
    using gen by (rule generate_counterfactuals_object)
  have "g' = g1"
  proof (cases r1)
    case (Some e)
    with run gen show ?thesis by (simp add: pipeline_def split: if_splits)
  next
    case None
    show ?thesis
    proof (cases debug)
      case True
      with run gen None show ?thesis
        by (auto simp: pipeline_def split: option.splits)
    next
      case False
      with run gen None have "export_to_csv g1 w1 = (r, g', w')"
        by (simp add: pipeline_def)
      then show ?thesis using export_to_csv_object [of g1 w1] by simp
    qed
  qed
  with same show ?thesis by simp
qed

text \<open>
  C10.  Whatever the state of the generator and of the world, and whether the call returns
  or raises, \<^verbatim>\<open>generate_counterfactuals\<close> leaves \<^verbatim>\<open>sentences\<close>,
  \<^verbatim>\<open>cuda\<close>, \<^verbatim>\<open>model\<close> and \<^verbatim>\<open>dest_csv\<close> as they were, so that only
  \<^verbatim>\<open>counter_sentences\<close> can differ, and \<^verbatim>\<open>export_to_csv\<close> leaves the whole
  object as it was.
\<close>

theorem methods_frame:
  "sentences (fst (snd (generate_counterfactuals P g w))) = sentences g \<and>
   cuda (fst (snd (generate_counterfactuals P g w))) = cuda g \<and>
   model (fst (snd (generate_counterfactuals P g w))) = model g \<and>
   dest_csv (fst (snd (generate_counterfactuals P g w))) = dest_csv g \<and>
   fst (snd (export_to_csv g w)) = g"
proof -
  obtain r g' w' where gen: "generate_counterfactuals P g w = (r, g', w')"
    by (cases "generate_counterfactuals P g w") auto
  from generate_counterfactuals_object [OF gen] gen export_to_csv_object [of g w]
  show ?thesis by simp
qed

subsection \<open>Export\<close>





subsection \<open>Construction\<close>

text \<open>
  C9.  When the source file holds a table, both required arguments are given and the table
  has no column of the given name, the constructor raises the KeyError of the column lookup:
  it prints nothing and does not exit with status 1.
\<close>

theorem missing_column_raises:
  assumes "fs w p = Some (Csv t)"
    and "c \<notin> fst ` set t"
  shows "PolyjuiceGenerator_init (Some p) (Some c) dest cuda_arg w = (Inl (KeyError c), w)"
proof -
  have "map_of t c = None"
    using assms(2) by (simp add: map_of_eq_None_iff)
  with assms(1) show ?thesis
    by (simp add: PolyjuiceGenerator_init_def path_exists_def read_csv_def getitem_def)
qed

theorem missing_column_raises_witness:
  "fs example_world ''in.csv'' = Some (Csv example_table) \<and>
   ''label'' \<notin> fst ` set example_table \<and>
   PolyjuiceGenerator_init (Some ''in.csv'') (Some ''label'') None None example_world
     = (Inl (KeyError ''label''), example_world)"
proof -
  have there: "fs example_world ''in.csv'' = Some (Csv example_table)"
    by (simp add: example_world_def)
  have absent: "''label'' \<notin> fst ` set example_table"
    by (simp add: example_table_def)
  show ?thesis
    using there absent missing_column_raises [OF there absent, of None None] by simp
qed

text \<open>
  C4, as the code has it.  The constructor checks that the source path is given, that it
  exists and that the column name is given (a name that is given and empty passes).  When the
  path is not given, or does not exist, or the column name is not given, it prints one line
  that starts with \<open>[ERROR]\<close> and raises \<^verbatim>\<open>SystemExit(1)\<close>: no file is read, no object
  is built and the file system is as before.  In every other case it prints nothing and does
  not exit with status 1.
\<close>

theorem init_validation:
  "(source_csv = None \<longrightarrow>
      PolyjuiceGenerator_init source_csv source_col dest cuda_arg w =
        (Inl (SystemExit 1),
         w\<lparr>stdout := stdout w @ [''[ERROR]: source_csv must be specified'']\<rparr>)) \<and>
   (source_csv = Some p \<and> fs w p = None \<longrightarrow>
      PolyjuiceGenerator_init source_csv source_col dest cuda_arg w =
        (Inl (SystemExit 1),
         w\<lparr>stdout := stdout w @ [''[ERROR]: file '' @ p @ '' does not exist'']\<rparr>)) \<and>
   (source_csv = Some p \<and> fs w p \<noteq> None \<and> source_col = None \<longrightarrow>
      PolyjuiceGenerator_init source_csv source_col dest cuda_arg w =
        (Inl (SystemExit 1),
         w\<lparr>stdout := stdout w @ [''[ERROR]: source_col must be specified'']\<rparr>)) \<and>
   (source_csv = Some p \<and> fs w p \<noteq> None \<and> source_col = Some c \<longrightarrow>
      fst (PolyjuiceGenerator_init source_csv source_col dest cuda_arg w) \<noteq> Inl (SystemExit 1) \<and>
      snd (PolyjuiceGenerator_init source_csv source_col dest cuda_arg w) = w)"
proof (intro conjI impI)
  assume "source_csv = None"
  then show "PolyjuiceGenerator_init source_csv source_col dest cuda_arg w =
        (Inl (SystemExit 1),
         w\<lparr>stdout := stdout w @ [''[ERROR]: source_csv must be specified'']\<rparr>)"
    by (simp add: PolyjuiceGenerator_init_def py_print_def)
next
  assume "source_csv = Some p \<and> fs w p = None"
  then show "PolyjuiceGenerator_init source_csv source_col dest cuda_arg w =
        (Inl (SystemExit 1),
         w\<lparr>stdout := stdout w @ [''[ERROR]: file '' @ p @ '' does not exist'']\<rparr>)"
    by (simp add: PolyjuiceGenerator_init_def py_print_def path_exists_def)
next
  assume "source_csv = Some p \<and> fs w p \<noteq> None \<and> source_col = None"
  then show "PolyjuiceGenerator_init source_csv source_col dest cuda_arg w =
        (Inl (SystemExit 1),
         w\<lparr>stdout := stdout w @ [''[ERROR]: source_col must be specified'']\<rparr>)"
    by (auto simp: PolyjuiceGenerator_init_def py_print_def path_exists_def)
next
  assume "source_csv = Some p \<and> fs w p \<noteq> None \<and> source_col = Some c"
  then show "fst (PolyjuiceGenerator_init source_csv source_col dest cuda_arg w) \<noteq> Inl (SystemExit 1)"
    by (auto simp: PolyjuiceGenerator_init_def path_exists_def read_csv_def getitem_def Let_def
          split: file_content.splits option.splits)
next
  assume "source_csv = Some p \<and> fs w p \<noteq> None \<and> source_col = Some c"
  then show "snd (PolyjuiceGenerator_init source_csv source_col dest cuda_arg w) = w"
    by (auto simp: PolyjuiceGenerator_init_def path_exists_def read_csv_def getitem_def Let_def
          split: file_content.splits option.splits)
qed

theorem init_validation_witness:
  "PolyjuiceGenerator_init None (Some ''text'') None None example_world =
     (Inl (SystemExit 1),
      example_world\<lparr>stdout := [''[ERROR]: source_csv must be specified'']\<rparr>) \<and>
   PolyjuiceGenerator_init (Some ''absent.csv'') (Some ''text'') None None example_world =
     (Inl (SystemExit 1),
      example_world\<lparr>stdout := [''[ERROR]: file absent.csv does not exist'']\<rparr>) \<and>
   PolyjuiceGenerator_init (Some ''in.csv'') None None None example_world =
     (Inl (SystemExit 1),
      example_world\<lparr>stdout := [''[ERROR]: source_col must be specified'']\<rparr>) \<and>
   fst (PolyjuiceGenerator_init (Some ''in.csv'') (Some ''text'') None None example_world)
     \<noteq> Inl (SystemExit 1) \<and>
   snd (PolyjuiceGenerator_init (Some ''in.csv'') (Some ''text'') None None example_world)
     = example_world"
proof -
  have absent: "fs example_world ''absent.csv'' = None"
    by (simp add: example_world_def)
  have there: "fs example_world ''in.csv'' \<noteq> None"
    by (simp add: example_world_def)
  have out: "stdout example_world = []"
    by (simp add: example_world_def)
  show ?thesis
    using absent there out
      init_validation [where source_csv = None and source_col = "Some ''text''" and dest = None
        and cuda_arg = None and w = example_world]
      init_validation [where source_csv = "Some ''absent.csv''" and p = "''absent.csv''"
        and source_col = "Some ''text''" and dest = None and cuda_arg = None and w = example_world]
      init_validation [where source_csv = "Some ''in.csv''" and p = "''in.csv''"
        and source_col = None and dest = None and cuda_arg = None and w = example_world]
      init_validation [where source_csv = "Some ''in.csv''" and p = "''in.csv''"
        and source_col = "Some ''text''" and c = "''text''" and dest = None and cuda_arg = None
        and w = example_world]
    by simp
qed

text \<open>
  An empty column name is not caught by the checks: the source file is read and the column
  lookup raises KeyError, with nothing printed.
\<close>

theorem empty_column_name_not_rejected:
  "PolyjuiceGenerator_init (Some ''in.csv'') (Some '''') None None example_world
     = (Inl (KeyError ''''), example_world)"
  by (simp add: PolyjuiceGenerator_init_def path_exists_def read_csv_def getitem_def
        example_world_def example_table_def)

subsection \<open>The device\<close>

lemma parse_args_cuda:
  "arg_cuda (parse_args argv ns) = (arg_cuda ns \<or> CudaFlag \<in> set argv)"
  by (induction argv ns rule: parse_args.induct) auto

lemma parse_input_cuda:
  "parse_input argv = Inr args \<Longrightarrow> arg_cuda args = (CudaFlag \<in> set argv)"
  by (auto simp: parse_input_def Let_def parse_args_cuda split: if_splits)

lemma init_device:
  "PolyjuiceGenerator_init source_csv source_col dest cuda_arg w0 = (Inr g, w1) \<Longrightarrow>
     cuda g = (case cuda_arg of None \<Rightarrow> cuda_available w0 | Some b \<Rightarrow> b) \<and>
     is_cuda (model g) = cuda g"
  by (auto simp: PolyjuiceGenerator_init_def Let_def split: option.splits if_splits sum.splits)

lemma main_device:
  assumes "main P elapsed args w = (r, Some g, w')"
  shows "cuda g = arg_cuda args \<and> is_cuda (model g) = arg_cuda args"
proof -
  obtain a w1 where built: "PolyjuiceGenerator_init (arg_source_csv args) (arg_source_col args)
             (arg_dest_csv args) (Some (arg_cuda args)) w = (a, w1)"
    by (cases "PolyjuiceGenerator_init (arg_source_csv args) (arg_source_col args)
             (arg_dest_csv args) (Some (arg_cuda args)) w") auto
  show ?thesis
  proof (cases a)
    case (Inl e)
    with built assms show ?thesis by (simp add: main_def)
  next
    case (Inr g0)
    obtain r2 g2 w2 where run: "pipeline P False g0 w1 = (r2, g2, w2)"
      by (cases "pipeline P False g0 w1") auto
    from assms built Inr run have "g = g2"
      by (cases r2) (simp_all add: main_def)
    moreover from built Inr have "cuda g0 = arg_cuda args \<and> is_cuda (model g0) = cuda g0"
      using init_device [of "arg_source_csv args" "arg_source_col args" "arg_dest_csv args"
          "Some (arg_cuda args)" w g0 w1] by simp
    moreover from pipeline_object [OF run] have "cuda g2 = cuda g0 \<and> model g2 = model g0"
      by simp
    ultimately show ?thesis by simp
  qed
qed

text \<open>
  C7, as the code has it.  The constructor takes the \<^verbatim>\<open>cuda\<close> argument when it is not
  \<^verbatim>\<open>None\<close> and asks \<^verbatim>\<open>torch.cuda.is_available()\<close> otherwise, and the model is bound
  to the same choice.  A run of the script always passes a boolean, \<^verbatim>\<open>True\<close> when
  \<^verbatim>\<open>--cuda\<close> is on the command line and \<^verbatim>\<open>False\<close> when it is not, so the device of
  a run is the presence of the flag and the availability of hardware is never consulted.
\<close>

theorem device_selection:
  "(PolyjuiceGenerator_init source_csv source_col dest cuda_arg w0 = (Inr g, w1) \<longrightarrow>
      cuda g = (case cuda_arg of None \<Rightarrow> cuda_available w0 | Some b \<Rightarrow> b) \<and>
      is_cuda (model g) = cuda g) \<and>
   (script P elapsed argv w = (r, Some g', w') \<longrightarrow>
      cuda g' = (CudaFlag \<in> set argv) \<and> is_cuda (model g') = (CudaFlag \<in> set argv))"
proof (intro conjI impI)
  assume "PolyjuiceGenerator_init source_csv source_col dest cuda_arg w0 = (Inr g, w1)"
  then show "cuda g = (case cuda_arg of None \<Rightarrow> cuda_available w0 | Some b \<Rightarrow> b)"
    and "is_cuda (model g) = cuda g"
    using init_device by blast+
next
  assume run: "script P elapsed argv w = (r, Some g', w')"
  then obtain args where parsed: "parse_input argv = Inr args"
    and m: "main P elapsed args w = (r, Some g', w')"
    by (cases "parse_input argv") (simp_all add: script_def)
  from main_device [OF m] parse_input_cuda [OF parsed]
  show "cuda g' = (CudaFlag \<in> set argv)" and "is_cuda (model g') = (CudaFlag \<in> set argv)"
    by simp_all
qed

theorem device_selection_witness:
  "PolyjuiceGenerator_init (Some ''in.csv'') (Some ''text'') None None example_world
     = (Inr example_generator, example_world) \<and>
   cuda example_generator = cuda_available example_world \<and>
   is_cuda (model example_generator) = cuda example_generator \<and>
   fst (snd (script stub_perturb ''0:00:01'' [SourceCsv ''in.csv'', SourceCol ''text'', CudaFlag]
               example_world)) = Some example_generator \<and>
   cuda example_generator = (CudaFlag \<in> set [SourceCsv ''in.csv'', SourceCol ''text'', CudaFlag])"
proof -
  have built: "PolyjuiceGenerator_init (Some ''in.csv'') (Some ''text'') None None example_world
                 = (Inr example_generator, example_world)"
    by (simp add: PolyjuiceGenerator_init_def path_exists_def read_csv_def getitem_def
          example_world_def example_table_def example_generator_def)
  have run: "script stub_perturb ''0:00:01'' [SourceCsv ''in.csv'', SourceCol ''text'', CudaFlag]
               example_world =
             (Some AttributeError, Some example_generator,
              example_world\<lparr>stdout := [''[INFO]: Generating Counterfactuals...''],
                            model_state := [(''The movie was great'', 1)]\<rparr>)"
    by (simp add: script_def parse_input_def main_def PolyjuiceGenerator_init_def path_exists_def
          read_csv_def getitem_def pipeline_def generate_counterfactuals_def py_print_def
          stub_perturb_def example_world_def example_table_def example_generator_def)
  show ?thesis
    using built run
      device_selection [where source_csv = "Some ''in.csv''" and source_col = "Some ''text''"
        and dest = None and cuda_arg = None and ?w0.0 = example_world and g = example_generator
        and ?w1.0 = example_world and P = stub_perturb and elapsed = "''0:00:01''"
        and argv = "[SourceCsv ''in.csv'', SourceCol ''text'', CudaFlag]" and w = example_world
        and r = "Some AttributeError" and g' = example_generator
        and w' = "example_world\<lparr>stdout := [''[INFO]: Generating Counterfactuals...''],
                            model_state := [(''The movie was great'', 1)]\<rparr>"]
    by auto
qed

text \<open>
  A run without \<^verbatim>\<open>--cuda\<close> on a machine where hardware acceleration is available:
  the device is not the detected one.
\<close>

theorem cli_never_autodetects:
  "cuda_available example_world \<and>
   CudaFlag \<notin> set [SourceCsv ''in.csv'', SourceCol ''text''] \<and>
   map_option cuda
     (fst (snd (script stub_perturb ''0:00:01'' [SourceCsv ''in.csv'', SourceCol ''text'']
                  example_world))) = Some False"
  by (simp add: script_def parse_input_def main_def PolyjuiceGenerator_init_def path_exists_def
        read_csv_def getitem_def pipeline_def generate_counterfactuals_def py_print_def
        stub_perturb_def example_world_def example_table_def)

subsection \<open>Runs of the example\<close>

text \<open>
  C1.  The script on the example table, with the stand-in model: construction succeeds, the
  model is asked about the first sentence, and the append of the first round raises
  AttributeError.  \<^verbatim>\<open>counter_sentences\<close> still holds \<^verbatim>\<open>None\<close>, not one
  entry for each of the two sentences, and no destination file exists.
\<close>

theorem run_raises_instead_of_output:
  "script stub_perturb ''0:00:01'' [SourceCsv ''in.csv'', SourceCol ''text''] example_world =
     (Some AttributeError,
      Some (example_generator\<lparr>cuda := False,
              model := \<lparr>model_path = ''uw-hai/polyjuice'', is_cuda = False\<rparr>\<rparr>),
      example_world\<lparr>stdout := [''[INFO]: Generating Counterfactuals...''],
                    model_state := [(''The movie was great'', 1)]\<rparr>) \<and>
   counter_sentences example_generator = None \<and>
   fs example_world ''polyjuice_edits.csv'' = None"
  by (simp add: script_def parse_input_def main_def PolyjuiceGenerator_init_def path_exists_def
        read_csv_def getitem_def pipeline_def generate_counterfactuals_def py_print_def
        stub_perturb_def example_world_def example_table_def example_generator_def)

text \<open>
  C2.  \<^verbatim>\<open>generate_counterfactuals\<close> on the constructed example: the model has
  answered one candidate for the first sentence, the call raises, nothing is kept and the
  second sentence is never sent to the model.  On a single sentence for which the model
  answers no candidate the call raises as well, and the sentence is not kept.
\<close>

theorem generate_keeps_no_candidate:
  "generate_counterfactuals stub_perturb example_generator example_world =
     (Some AttributeError, example_generator,
      example_world\<lparr>stdout := [''[INFO]: Generating Counterfactuals...''],
                    model_state := [(''The movie was great'', 1)]\<rparr>) \<and>
   generate_counterfactuals stub_perturb (example_generator\<lparr>sentences := [''I hate rain'']\<rparr>)
       example_world =
     (Some AttributeError, example_generator\<lparr>sentences := [''I hate rain'']\<rparr>,
      example_world\<lparr>stdout := [''[INFO]: Generating Counterfactuals...''],
                    model_state := [(''I hate rain'', 1)]\<rparr>)"
  by (simp add: generate_counterfactuals_def py_print_def stub_perturb_def example_world_def
        example_generator_def)

text \<open>
  C6.  \<^verbatim>\<open>pipeline\<close> in debug mode on the constructed example raises in the generation
  and prints no pair; on a generator without sentences the generation returns and the
  \<^verbatim>\<open>zip\<close> over \<^verbatim>\<open>None\<close> raises TypeError.
\<close>

theorem debug_prints_no_pair:
  "pipeline stub_perturb True example_generator example_world =
     (Some AttributeError, example_generator,
      example_world\<lparr>stdout := [''[INFO]: Generating Counterfactuals...''],
                    model_state := [(''The movie was great'', 1)]\<rparr>) \<and>
   pipeline stub_perturb True (example_generator\<lparr>sentences := []\<rparr>) example_world =
     (Some TypeError, example_generator\<lparr>sentences := []\<rparr>,
      example_world\<lparr>stdout := [''[INFO]: Generating Counterfactuals...'']\<rparr>)"
  by (simp add: pipeline_def generate_counterfactuals_def py_print_def stub_perturb_def
        example_world_def example_generator_def)

subsection \<open>With the list bound\<close>

text \<open>
  What the loop and the debug mode do once \<^verbatim>\<open>counter_sentences\<close> holds a list, for
  a model that answers \<open>f s\<close> on the sentence \<open>s\<close>: one output for each sentence, in
  order, the first candidate or else the sentence itself.  In debug mode no file is
  written, whatever the state.
\<close>

lemma generate_loop_bound:
  "counter_sentences g = Some cs \<Longrightarrow>
   generate_loop (\<lambda>mdl s n m. (Inr (f s), m)) ss g w =
     (None,
      g\<lparr>counter_sentences := Some (cs @ map (\<lambda>s. case f s of [] \<Rightarrow> s | c # _ \<Rightarrow> c) ss)\<rparr>,
      w)"
  by (induction ss arbitrary: g cs w) auto

lemma print_pairs_fs: "fs (foldl print_pair w ps) = fs w"
  by (induction ps arbitrary: w) (simp_all add: print_pair_def py_print_def)

lemma pipeline_debug_no_write: "fs (snd (snd (pipeline P True g w))) = fs w"
proof -
  obtain r1 g1 w1 where gen: "generate_counterfactuals P g w = (r1, g1, w1)"
    by (cases "generate_counterfactuals P g w") auto
  then have "generate_loop P (sentences g) g (py_print ''[INFO]: Generating Counterfactuals...'' w)
               = (r1, g1, w1)"
    by (simp add: generate_counterfactuals_def)
  from generate_loop_world [OF this] have "fs w1 = fs w"
    by (simp add: py_print_def)
  with gen show ?thesis
    by (simp add: pipeline_def print_pairs_fs split: option.splits)
qed

lemma pipeline_debug_bound:
  "counter_sentences g = Some [] \<Longrightarrow>
   pipeline (\<lambda>mdl s n m. (Inr (f s), m)) True g w =
     (None,
      g\<lparr>counter_sentences := Some (map (\<lambda>s. case f s of [] \<Rightarrow> s | c # _ \<Rightarrow> c) (sentences g))\<rparr>,
      foldl print_pair (py_print ''[INFO]: Generating Counterfactuals...'' w)
        (zip (sentences g) (map (\<lambda>s. case f s of [] \<Rightarrow> s | c # _ \<Rightarrow> c) (sentences g))))"
  by (simp add: pipeline_def generate_counterfactuals_def generate_loop_bound)

end
